theory Spec2Isabelle
  imports Main "HOL-Library.Word"
begin

section \<open>Shader keys (d3d11\_shader.h, class D3D11ShaderKey)\<close>

text \<open>
  The program type of a shader. The enumeration itself lives in the DXBC headers; the
  header under study only uses it as an opaque tag with six values, one per pipeline
  stage.
\<close>

datatype DxbcProgramType =
    PixelShader
  | VertexShader
  | GeometryShader
  | HullShader
  | DomainShader
  | ComputeShader

text \<open>
  A SHA-1 digest is 160 bits wide. Two digests are equal when all their bits are.
\<close>

type_synonym Sha1Hash = "160 word"

text \<open>
  \<^verbatim>\<open>class D3D11ShaderKey\<close> has the two private fields \<^verbatim>\<open>m_type\<close> and \<^verbatim>\<open>m_hash\<close>.
\<close>

record D3D11ShaderKey =
  m_type :: DxbcProgramType
  m_hash :: Sha1Hash

text \<open>
  \<^verbatim>\<open>bool operator == (const D3D11ShaderKey& other) const\<close>:
  \<^verbatim>\<open>return m_type == other.m_type && m_hash == other.m_hash;\<close>
\<close>

definition D3D11ShaderKey_eq :: "D3D11ShaderKey \<Rightarrow> D3D11ShaderKey \<Rightarrow> bool" where
  "D3D11ShaderKey_eq this other \<longleftrightarrow>
     m_type this = m_type other \<and> m_hash this = m_hash other"


text \<open>
  Modelled from the spec: \<^verbatim>\<open>D3D11ShaderKey::GetName\<close> is only declared in the header.
  The spec describes the result as a stage tag followed by the digest rendered as
  hexadecimal. The digest is rendered with two digits per byte, most significant digit
  first, that is forty digits; the tag of each stage is not given by the spec and is a
  parameter.
\<close>

definition hexdigit :: "nat \<Rightarrow> char" where
  "hexdigit n = ''0123456789abcdef'' ! (n mod 16)"

fun hex_digits :: "nat \<Rightarrow> nat \<Rightarrow> string" where
  "hex_digits 0 v = []"
| "hex_digits (Suc n) v = hex_digits n (v div 16) @ [hexdigit (v mod 16)]"

definition Sha1Hash_toString :: "Sha1Hash \<Rightarrow> string" where
  "Sha1Hash_toString h = hex_digits 40 (unat h)"

definition D3D11ShaderKey_GetName ::
  "(DxbcProgramType \<Rightarrow> string) \<Rightarrow> D3D11ShaderKey \<Rightarrow> string" where
  "D3D11ShaderKey_GetName stage_tag key =
     stage_tag (m_type key) @ Sha1Hash_toString (m_hash key)"


section \<open>Shader front objects (template D3D11Shader and its six aliases)\<close>

text \<open>
  Interface identities. \<^verbatim>\<open>__uuidof\<close> gives every COM interface its own GUID, so an
  identity is modelled by the interface it names; \<open>IID_Other n\<close> stands for the GUID of
  any interface that the header does not mention.
\<close>

datatype IID =
    IUnknown
  | ID3D11DeviceChild
  | ID3D11VertexShader
  | ID3D11HullShader
  | ID3D11DomainShader
  | ID3D11GeometryShader
  | ID3D11PixelShader
  | ID3D11ComputeShader
  | ID3D10DeviceChild
  | ID3D10VertexShader
  | ID3D10GeometryShader
  | ID3D10PixelShader
  | IID_Other nat

datatype HRESULT = S_OK | E_NOINTERFACE

text \<open>
  What \<^verbatim>\<open>*ppvObject\<close> can hold after a query on a front object: nothing, the front
  object itself (\<^verbatim>\<open>this\<close>) or its embedded D3D10 adapter (\<^verbatim>\<open>&m_d3d10\<close>).
\<close>

datatype ObjectRef = nullptr | this | m_d3d10

text \<open>
  The outcome of a call: the pointer stored through \<^verbatim>\<open>ppvObject\<close>, the returned
  status and the lines written to the logger by the call.
\<close>

record QueryResult =
  ppvObject :: ObjectRef
  hresult :: HRESULT
  logged :: "string list"

text \<open>
  \<^verbatim>\<open>D3D11Shader<D3D11Interface, D3D10Interface>::QueryInterface\<close>. The two template
  parameters are the first two arguments. The statements are kept in the order of the
  source: \<^verbatim>\<open>*ppvObject\<close> is cleared first, then the two lists of identities are tested
  one after the other, and the warning is logged when neither matches. The helper
  \<^verbatim>\<open>ref\<close> takes a counted reference to its argument and returns it; the count is kept
  by a base class that the header does not define, so only the returned pointer appears
  here.
\<close>

definition QueryInterface :: "IID \<Rightarrow> IID \<Rightarrow> IID \<Rightarrow> QueryResult" where
  "QueryInterface D3D11Interface D3D10Interface riid =
     (let cleared = nullptr in
      if riid = IUnknown \<or> riid = ID3D11DeviceChild \<or> riid = D3D11Interface
        then \<lparr>ppvObject = this, hresult = S_OK, logged = []\<rparr>
      else if riid = IUnknown \<or> riid = ID3D10DeviceChild \<or> riid = D3D10Interface
        then \<lparr>ppvObject = m_d3d10, hresult = S_OK, logged = []\<rparr>
      else \<lparr>ppvObject = cleared, hresult = E_NOINTERFACE,
             logged = [''D3D11Shader::QueryInterface: Unknown interface query'']\<rparr>)"

text \<open>
  The six \<^verbatim>\<open>using\<close> declarations at the end of the template: each alias names one
  instantiation of the template.
\<close>

datatype ShaderAlias =
    D3D11VertexShader
  | D3D11HullShader
  | D3D11DomainShader
  | D3D11GeometryShader
  | D3D11PixelShader
  | D3D11ComputeShader

fun D3D11Interface :: "ShaderAlias \<Rightarrow> IID" where
  "D3D11Interface D3D11VertexShader   = ID3D11VertexShader"
| "D3D11Interface D3D11HullShader     = ID3D11HullShader"
| "D3D11Interface D3D11DomainShader   = ID3D11DomainShader"
| "D3D11Interface D3D11GeometryShader = ID3D11GeometryShader"
| "D3D11Interface D3D11PixelShader    = ID3D11PixelShader"
| "D3D11Interface D3D11ComputeShader  = ID3D11ComputeShader"

fun D3D10Interface :: "ShaderAlias \<Rightarrow> IID" where
  "D3D10Interface D3D11VertexShader   = ID3D10VertexShader"
| "D3D10Interface D3D11HullShader     = ID3D10DeviceChild"
| "D3D10Interface D3D11DomainShader   = ID3D10DeviceChild"
| "D3D10Interface D3D11GeometryShader = ID3D10GeometryShader"
| "D3D10Interface D3D11PixelShader    = ID3D10PixelShader"
| "D3D10Interface D3D11ComputeShader  = ID3D10DeviceChild"

definition shader_aliases :: "ShaderAlias list" where
  "shader_aliases =
     [D3D11VertexShader, D3D11HullShader, D3D11DomainShader,
      D3D11GeometryShader, D3D11PixelShader, D3D11ComputeShader]"

text \<open>The query as answered by an object of one of the six aliases.\<close>

definition QueryInterface_of :: "ShaderAlias \<Rightarrow> IID \<Rightarrow> QueryResult" where
  "QueryInterface_of a riid = QueryInterface (D3D11Interface a) (D3D10Interface a) riid"


section \<open>Common shader objects (class D3D11CommonShader)\<close>

text \<open>
  A reference-counted pointer \<^verbatim>\<open>Rc<T>\<close> either is null or refers to a shared object;
  objects are told apart by their identity.
\<close>

datatype DxvkShader = DxvkShader nat
datatype DxvkBuffer = DxvkBuffer nat
datatype D3D11Device = D3D11Device nat

type_synonym 'a Rc = "'a option"

record D3D11CommonShader =
  m_name :: string
  m_shader :: "DxvkShader Rc"
  m_buffer :: "DxvkBuffer Rc"

text \<open>
  The three accessors are member functions of the object: each takes the object and
  gives back the returned value together with the object as the call leaves it.
\<close>

definition GetShader :: "D3D11CommonShader \<Rightarrow> DxvkShader Rc \<times> D3D11CommonShader" where
  "GetShader self = (m_shader self, self)"




text \<open>
  The fields of a front object. The source calls the second field \<^verbatim>\<open>m_shader\<close>; it is
  renamed here because the record above already has a field of that name. The embedded
  adapter \<^verbatim>\<open>m_d3d10\<close> holds nothing but a pointer back to the front object, so it adds
  no field.
\<close>

record D3D11Shader =
  m_device :: D3D11Device
  m_commonShader :: D3D11CommonShader






section \<open>Shader module set (class D3D11ShaderModuleSet)\<close>

subsection \<open>Collaborators and constructors\<close>

text \<open>
  Shader bytecode is the byte range \<^verbatim>\<open>pShaderBytecode\<close> of length
  \<^verbatim>\<open>BytecodeLength\<close>, that is a list of bytes. \<^verbatim>\<open>DxbcModuleInfo\<close> is the translation
  configuration; the header passes it on by pointer and never looks inside.
\<close>

type_synonym bytecode = "8 word list"

datatype DxbcModuleInfo = DxbcModuleInfo nat

datatype Error = CompilationFailure

text \<open>
  What the shader module set relies on and the header does not define: the SHA-1
  function, the stage tags used in names, and the compiler. The compiler takes the
  device, the translation configuration, the bytecode and the stage; it answers with a
  program handle and an optional buffer handle, or with nothing when it fails. Its
  answer may depend on a state of its own, of any type \<open>'w\<close>, which it updates, so
  successive invocations on the same input may differ.
\<close>

record 'w Collaborators =
  Sha1Hash_compute :: "bytecode \<Rightarrow> Sha1Hash"
  stage_tag :: "DxbcProgramType \<Rightarrow> string"
  Compiler :: "'w \<Rightarrow> D3D11Device \<Rightarrow> DxbcModuleInfo \<Rightarrow> bytecode \<Rightarrow> DxbcProgramType
                \<Rightarrow> (DxvkShader \<times> DxvkBuffer Rc) option \<times> 'w"

text \<open>
  Modelled from the spec: the constructor
  \<^verbatim>\<open>D3D11ShaderKey(ProgramType, pShaderBytecode, BytecodeLength)\<close> is only declared in
  the header. By the spec it keeps the stage and computes the digest over exactly the
  bytecode bytes; the stage is not fed into the digest.
\<close>

definition D3D11ShaderKey_new ::
  "'w Collaborators \<Rightarrow> DxbcProgramType \<Rightarrow> bytecode \<Rightarrow> D3D11ShaderKey" where
  "D3D11ShaderKey_new E ProgramType pShaderBytecode =
     \<lparr>m_type = ProgramType, m_hash = Sha1Hash_compute E pShaderBytecode\<rparr>"

text \<open>
  Modelled from the spec: the constructor
  \<^verbatim>\<open>D3D11CommonShader(pDevice, pShaderKey, pDxbcModuleInfo, pShaderBytecode, BytecodeLength)\<close>
  is only declared in the header. By the spec it delegates to the compiler, stores the
  program handle and the buffer handle (if any) together with the name derived from
  the key, and fails with a compilation failure when the compiler fails. The second
  component of the result is the compiler's state after the invocation.
\<close>

definition D3D11CommonShader_new ::
  "'w Collaborators \<Rightarrow> 'w \<Rightarrow> D3D11Device \<Rightarrow> D3D11ShaderKey \<Rightarrow> DxbcModuleInfo \<Rightarrow> bytecode
     \<Rightarrow> (Error + D3D11CommonShader) \<times> 'w" where
  "D3D11CommonShader_new E w pDevice pShaderKey pDxbcModuleInfo pShaderBytecode =
     (case Compiler E w pDevice pDxbcModuleInfo pShaderBytecode (m_type pShaderKey) of
        (None, w') \<Rightarrow> (Inl CompilationFailure, w')
      | (Some (program, icb), w') \<Rightarrow>
          (Inr \<lparr>m_name = D3D11ShaderKey_GetName (stage_tag E) pShaderKey,
                m_shader = Some program, m_buffer = icb\<rparr>, w'))"

subsection \<open>State\<close>

text \<open>The arguments of one call of \<^verbatim>\<open>GetShaderModule\<close>.\<close>

record ShaderRequest =
  pDevice :: D3D11Device
  pDxbcModuleInfo :: DxbcModuleInfo
  pShaderBytecode :: bytecode
  ProgramType :: DxbcProgramType

definition key_of :: "'w Collaborators \<Rightarrow> ShaderRequest \<Rightarrow> D3D11ShaderKey" where
  "key_of E r = D3D11ShaderKey_new E (ProgramType r) (pShaderBytecode r)"

type_synonym thread_id = nat

text \<open>
  The two private fields of the class: the mutex, which is free or held by one thread,
  and the table of modules. The table is an \<^verbatim>\<open>unordered_map\<close> whose key equality is
  \<^verbatim>\<open>operator ==\<close> of the shader key, which coincides with equality of keys.
\<close>

record D3D11ShaderModuleSet =
  m_mutex :: "thread_id option"
  m_modules :: "D3D11ShaderKey \<rightharpoonup> D3D11CommonShader"

text \<open>
  Where a thread stands in a call of \<^verbatim>\<open>GetShaderModule\<close>, with the values of its local
  variables: the arguments, the key once computed, the record once looked up or
  constructed.
\<close>

datatype CallState =
    Idle
  | Called ShaderRequest
  | Waiting ShaderRequest D3D11ShaderKey
  | Locked ShaderRequest D3D11ShaderKey
  | Found ShaderRequest D3D11ShaderKey D3D11CommonShader
  | Missing ShaderRequest D3D11ShaderKey
  | Constructed ShaderRequest D3D11ShaderKey D3D11CommonShader
  | Inserted ShaderRequest D3D11ShaderKey D3D11CommonShader
  | Failed ShaderRequest D3D11ShaderKey Error

text \<open>
  What an observer records: each invocation of the compiler, with the request on whose
  behalf it is made and whether it succeeded, and each return of a call, with the
  calling thread, its request and the returned record or the propagated failure.
\<close>

datatype Event =
    Compiled ShaderRequest bool
  | Returned thread_id ShaderRequest "Error + D3D11CommonShader"

text \<open>
  The module set together with the threads that use it, the state of the compiler and
  the events observed so far. The last field is an observation only: no step reads it.
\<close>

record 'w System = D3D11ShaderModuleSet +
  threads :: "thread_id \<Rightarrow> CallState"
  world :: 'w
  trace :: "Event list"

text \<open>
  Modelled from the spec: the constructor \<^verbatim>\<open>D3D11ShaderModuleSet()\<close> is only declared
  in the header. The cache starts with no entry; the mutex is free and no thread is in
  a call.
\<close>

definition init :: "'w \<Rightarrow> 'w System" where
  "init w = \<lparr>m_mutex = None, m_modules = Map.empty,
             threads = (\<lambda>t. Idle), world = w, trace = []\<rparr>"

subsection \<open>GetShaderModule\<close>

text \<open>
  Modelled from the spec: \<^verbatim>\<open>D3D11ShaderModuleSet::GetShaderModule\<close> is only declared in
  the header. The spec gives its steps: (1) compute the key from the stage and the
  bytecode; (2) acquire exclusive access to the table; (3) if the key is present, copy
  out the stored record, release and return the copy; (4) if it is absent, construct a
  new record, which may invoke the compiler and can fail, insert it under the key,
  release and return a copy. A failure of the constructor is propagated to the caller;
  exclusive access is released on that path too.

  This is the call made by thread \<open>t\<close> and run to its end without another thread taking
  a step. With the mutex held by someone else the call would wait for ever, which is
  the result \<open>None\<close>.
\<close>

definition GetShaderModule ::
  "'w Collaborators \<Rightarrow> thread_id \<Rightarrow> ShaderRequest \<Rightarrow> 'w System
     \<Rightarrow> ((Error + D3D11CommonShader) \<times> 'w System) option" where
  "GetShaderModule E t r s =
     (let key = D3D11ShaderKey_new E (ProgramType r) (pShaderBytecode r) in
      if m_mutex s \<noteq> None then None
      else
        let s1 = s\<lparr>m_mutex := Some t\<rparr> in
        case m_modules s1 key of
          Some m \<Rightarrow>
            Some (Inr m, s1\<lparr>m_mutex := None, trace := trace s1 @ [Returned t r (Inr m)]\<rparr>)
        | None \<Rightarrow>
            (case D3D11CommonShader_new E (world s1) (pDevice r) key (pDxbcModuleInfo r)
                    (pShaderBytecode r) of
               (Inl e, w') \<Rightarrow>
                 Some (Inl e, s1\<lparr>m_mutex := None, world := w',
                   trace := trace s1 @ [Compiled r False, Returned t r (Inl e)]\<rparr>)
             | (Inr m, w') \<Rightarrow>
                 Some (Inr m, s1\<lparr>m_mutex := None, m_modules := (m_modules s1)(key \<mapsto> m),
                   world := w',
                   trace := trace s1 @ [Compiled r True, Returned t r (Inr m)]\<rparr>)))"

text \<open>
  Modelled from the spec: the same call taken one step at a time, so that the calls of
  several threads interleave. A scheduler picks a thread \<open>t\<close>; the thread takes the next
  step of its call. An idle thread enters a call with the request the scheduler hands
  it; a thread that wants the mutex while it is held does not move. The steps are those
  of the spec: compute the key, acquire, look up, then either return the stored record,
  or construct, insert and return, or propagate the failure of the constructor.
\<close>

definition step ::
  "'w Collaborators \<Rightarrow> thread_id \<times> ShaderRequest \<Rightarrow> 'w System \<Rightarrow> 'w System" where
  "step E a s =
     (let t = fst a in
      case threads s t of
        Idle \<Rightarrow> s\<lparr>threads := (threads s)(t := Called (snd a))\<rparr>
      | Called r \<Rightarrow>
          s\<lparr>threads := (threads s)(t := Waiting r (key_of E r))\<rparr>
      | Waiting r k \<Rightarrow>
          (if m_mutex s = None
           then s\<lparr>m_mutex := Some t, threads := (threads s)(t := Locked r k)\<rparr>
           else s)
      | Locked r k \<Rightarrow>
          (case m_modules s k of
             Some m \<Rightarrow> s\<lparr>threads := (threads s)(t := Found r k m)\<rparr>
           | None \<Rightarrow> s\<lparr>threads := (threads s)(t := Missing r k)\<rparr>)
      | Found r k m \<Rightarrow>
          s\<lparr>m_mutex := None, threads := (threads s)(t := Idle),
            trace := trace s @ [Returned t r (Inr m)]\<rparr>
      | Missing r k \<Rightarrow>
          (case D3D11CommonShader_new E (world s) (pDevice r) k (pDxbcModuleInfo r)
                  (pShaderBytecode r) of
             (Inl e, w') \<Rightarrow>
               s\<lparr>threads := (threads s)(t := Failed r k e), world := w',
                 trace := trace s @ [Compiled r False]\<rparr>
           | (Inr m, w') \<Rightarrow>
               s\<lparr>threads := (threads s)(t := Constructed r k m), world := w',
                 trace := trace s @ [Compiled r True]\<rparr>)
      | Constructed r k m \<Rightarrow>
          s\<lparr>m_modules := (m_modules s)(k \<mapsto> m),
            threads := (threads s)(t := Inserted r k m)\<rparr>
      | Inserted r k m \<Rightarrow>
          s\<lparr>m_mutex := None, threads := (threads s)(t := Idle),
            trace := trace s @ [Returned t r (Inr m)]\<rparr>
      | Failed r k e \<Rightarrow>
          s\<lparr>m_mutex := None, threads := (threads s)(t := Idle),
            trace := trace s @ [Returned t r (Inl e)]\<rparr>)"

text \<open>A schedule is run from left to right.\<close>

definition run ::
  "'w Collaborators \<Rightarrow> (thread_id \<times> ShaderRequest) list \<Rightarrow> 'w System \<Rightarrow> 'w System" where
  "run E schedule s = fold (step E) schedule s"

subsection \<open>Observations\<close>

text \<open>A thread is in the exclusive section from the acquisition to the release.\<close>

fun in_section :: "CallState \<Rightarrow> bool" where
  "in_section Idle = False"
| "in_section (Called r) = False"
| "in_section (Waiting r k) = False"
| "in_section (Locked r k) = True"
| "in_section (Found r k m) = True"
| "in_section (Missing r k) = True"
| "in_section (Constructed r k m) = True"
| "in_section (Inserted r k m) = True"
| "in_section (Failed r k e) = True"

text \<open>
  The outcomes of the compiler's invocations for the key \<open>k\<close>, in order (\<open>True\<close> for a
  success), and the results returned to the callers whose request has the key \<open>k\<close>.
\<close>

fun compilation_of :: "'w Collaborators \<Rightarrow> D3D11ShaderKey \<Rightarrow> Event \<Rightarrow> bool list" where
  "compilation_of E k (Compiled r ok) = (if key_of E r = k then [ok] else [])"
| "compilation_of E k (Returned t r res) = []"

definition compilations :: "'w Collaborators \<Rightarrow> D3D11ShaderKey \<Rightarrow> Event list \<Rightarrow> bool list" where
  "compilations E k tr = concat (map (compilation_of E k) tr)"

fun return_of ::
  "'w Collaborators \<Rightarrow> D3D11ShaderKey \<Rightarrow> Event \<Rightarrow> (Error + D3D11CommonShader) list" where
  "return_of E k (Compiled r ok) = []"
| "return_of E k (Returned t r res) = (if key_of E r = k then [res] else [])"

definition returns ::
  "'w Collaborators \<Rightarrow> D3D11ShaderKey \<Rightarrow> Event list \<Rightarrow> (Error + D3D11CommonShader) list" where
  "returns E k tr = concat (map (return_of E k) tr)"

definition successes :: "'w Collaborators \<Rightarrow> D3D11ShaderKey \<Rightarrow> Event list \<Rightarrow> nat" where
  "successes E k tr = length (filter (\<lambda>ok. ok) (compilations E k tr))"

definition failures :: "'w Collaborators \<Rightarrow> D3D11ShaderKey \<Rightarrow> Event list \<Rightarrow> nat" where
  "failures E k tr = length (filter (\<lambda>ok. \<not> ok) (compilations E k tr))"

definition failed_returns :: "'w Collaborators \<Rightarrow> D3D11ShaderKey \<Rightarrow> Event list \<Rightarrow> nat" where
  "failed_returns E k tr = length (filter isl (returns E k tr))"

subsection \<open>Invariants\<close>

text \<open>The mutex is held by exactly the thread that is in the section, if any.\<close>

definition mutex_inv :: "'w System \<Rightarrow> bool" where
  "mutex_inv s \<longleftrightarrow> (\<forall>t. in_section (threads s t) \<longleftrightarrow> m_mutex s = Some t)"

text \<open>
  The local variables of a thread agree with the table: the key is the key of the
  request, a record found or inserted is the one stored under the key, and nothing is
  stored under a key found missing until the thread inserts.
\<close>

fun local_ok ::
  "'w Collaborators \<Rightarrow> (D3D11ShaderKey \<rightharpoonup> D3D11CommonShader) \<Rightarrow> CallState \<Rightarrow> bool" where
  "local_ok E M Idle = True"
| "local_ok E M (Called r) = True"
| "local_ok E M (Waiting r k) = (k = key_of E r)"
| "local_ok E M (Locked r k) = (k = key_of E r)"
| "local_ok E M (Found r k m) = (k = key_of E r \<and> M k = Some m)"
| "local_ok E M (Missing r k) = (k = key_of E r \<and> M k = None)"
| "local_ok E M (Constructed r k m) = (k = key_of E r \<and> M k = None \<and> m_shader m \<noteq> None)"
| "local_ok E M (Inserted r k m) = (k = key_of E r \<and> M k = Some m)"
| "local_ok E M (Failed r k e) = (k = key_of E r \<and> M k = None)"

definition modules_inv :: "'w Collaborators \<Rightarrow> 'w System \<Rightarrow> bool" where
  "modules_inv E s \<longleftrightarrow>
     (\<forall>t. local_ok E (m_modules s) (threads s t))
     \<and> (\<forall>k m. m_modules s k = Some m \<longrightarrow> m_shader m \<noteq> None)"

text \<open>The state of the thread that holds the mutex; \<open>Idle\<close> when the mutex is free.\<close>

definition holder_state :: "'w System \<Rightarrow> CallState" where
  "holder_state s = (case m_mutex s of None \<Rightarrow> Idle | Some t \<Rightarrow> threads s t)"

fun building :: "CallState \<Rightarrow> D3D11ShaderKey \<Rightarrow> bool" where
  "building (Constructed r k m) k' = (k = k')"
| "building c k' = False"

fun failing :: "CallState \<Rightarrow> D3D11ShaderKey \<Rightarrow> bool" where
  "failing (Failed r k e) k' = (k = k')"
| "failing c k' = False"

text \<open>
  The events agree with the table: the compiler has succeeded once for a key that is
  stored or about to be, and never for another; every failure of the compiler has been
  returned to a caller or is about to be; every record returned is the one stored.
\<close>

definition trace_inv :: "'w Collaborators \<Rightarrow> 'w System \<Rightarrow> bool" where
  "trace_inv E s \<longleftrightarrow>
     (\<forall>k. successes E k (trace s) =
        (if m_modules s k \<noteq> None \<or> building (holder_state s) k then 1 else 0))
     \<and> (\<forall>k. failures E k (trace s) =
        failed_returns E k (trace s) + (if failing (holder_state s) k then 1 else 0))
     \<and> (\<forall>t r m. Returned t r (Inr m) \<in> set (trace s) \<longrightarrow> m_modules s (key_of E r) = Some m)"

definition cache_inv :: "'w Collaborators \<Rightarrow> 'w System \<Rightarrow> bool" where
  "cache_inv E s \<longleftrightarrow> mutex_inv s \<and> modules_inv E s \<and> trace_inv E s"

subsection \<open>Sample inputs\<close>

text \<open>
  A compiler that fails on its first invocation and succeeds afterwards, returning a
  fresh program each time; its state counts the invocations. The digest of this
  sample environment is the length of the bytecode.
\<close>

definition flaky :: "nat Collaborators" where
  "flaky =
     \<lparr>Sha1Hash_compute = (\<lambda>b. of_nat (length b)),
      stage_tag = (\<lambda>t. ''S_''),
      Compiler = (\<lambda>w d i b t. (if w = 0 then None else Some (DxvkShader w, None), Suc w))\<rparr>"

definition request0 :: ShaderRequest where
  "request0 =
     \<lparr>pDevice = D3D11Device 0, pDxbcModuleInfo = DxbcModuleInfo 0,
      pShaderBytecode = [], ProgramType = PixelShader\<rparr>"

definition key0 :: D3D11ShaderKey where
  "key0 = \<lparr>m_type = PixelShader, m_hash = 0\<rparr>"

definition module0 :: "nat \<Rightarrow> D3D11CommonShader" where
  "module0 n =
     \<lparr>m_name = D3D11ShaderKey_GetName (\<lambda>t. ''S_'') key0,
      m_shader = Some (DxvkShader n), m_buffer = None\<rparr>"

text \<open>
  Two threads issue the same request; thread 0 gets the mutex first and thread 1 is
  scheduled twice while it waits.
\<close>

definition schedule1 :: "(thread_id \<times> ShaderRequest) list" where
  "schedule1 =
     [(0, request0), (1, request0), (0, request0), (1, request0), (0, request0),
      (1, request0), (0, request0), (0, request0), (1, request0), (0, request0),
      (0, request0), (1, request0), (1, request0), (1, request0)]"


text \<open>The value of a hexadecimal digit, used to read a rendered digest back.\<close>

definition hexvalue :: "char \<Rightarrow> nat" where
  "hexvalue c = (if of_char c < (58::nat) then of_char c - 48 else of_char c - 87)"


section \<open>Properties of the shader key\<close>

text \<open>
  C5. Two shader keys compare equal with \<^verbatim>\<open>operator ==\<close> exactly when their program
  types are equal and their digests are equal, that is exactly when they are the same
  pair of field values.
\<close>

theorem D3D11ShaderKey_eq_fieldwise:
  "(D3D11ShaderKey_eq a b \<longleftrightarrow> m_type a = m_type b \<and> m_hash a = m_hash b)
   \<and> (D3D11ShaderKey_eq a b \<longleftrightarrow> a = b)"
  by (cases a, cases b) (simp add: D3D11ShaderKey_eq_def)


lemma hexvalue_table:
  "map (\<lambda>c. hexvalue c) ''0123456789abcdef'' = [0 ..< 16]"
  by (simp add: hexvalue_def upt_conv_Cons)

lemma hexvalue_hexdigit:
  assumes "n < 16"
  shows "hexvalue (hexdigit n) = n"
proof -
  have "hexvalue (hexdigit n) = map (\<lambda>c. hexvalue c) ''0123456789abcdef'' ! n"
    using assms unfolding hexdigit_def by (subst nth_map) simp_all
  also have "\<dots> = [0 ..< 16] ! n"
    by (simp only: hexvalue_table)
  also have "\<dots> = n"
    using assms by simp
  finally show ?thesis .
qed

lemma hexdigit_in_alphabet: "hexdigit n \<in> set ''0123456789abcdef''"
proof -
  have "n mod 16 < length ''0123456789abcdef''" by simp
  then show ?thesis
    unfolding hexdigit_def by (rule nth_mem)
qed

lemma hexdigit_inj:
  assumes "hexdigit a = hexdigit b"
  shows "a mod 16 = b mod 16"
proof -
  have "hexdigit (a mod 16) = hexdigit (b mod 16)"
    using assms by (simp add: hexdigit_def)
  then have "hexvalue (hexdigit (a mod 16)) = hexvalue (hexdigit (b mod 16))"
    by simp
  moreover have "a mod 16 < 16" "b mod 16 < 16"
    by simp_all
  ultimately show ?thesis
    by (simp only: hexvalue_hexdigit)
qed

lemma length_hex_digits: "length (hex_digits n v) = n"
  by (induction n arbitrary: v) simp_all

lemma set_hex_digits: "set (hex_digits n v) \<subseteq> set ''0123456789abcdef''"
proof (induction n arbitrary: v)
  case 0
  show ?case by simp
next
  case (Suc n)
  have "set (hex_digits (Suc n) v) = set (hex_digits n (v div 16)) \<union> {hexdigit (v mod 16)}"
    by simp
  with Suc.IH [of "v div 16"] hexdigit_in_alphabet [of "v mod 16"] show ?case
    by blast
qed

lemma hex_digits_inj:
  assumes "hex_digits n a = hex_digits n b"
  shows "a mod 16 ^ n = b mod 16 ^ n"
  using assms
proof (induction n arbitrary: a b)
  case 0
  show ?case by simp
next
  case (Suc n)
  from Suc.prems have hi: "hex_digits n (a div 16) = hex_digits n (b div 16)"
    and lo: "hexdigit (a mod 16) = hexdigit (b mod 16)"
    by (simp_all add: length_hex_digits)
  from Suc.IH [OF hi] have 1: "(a div 16) mod 16 ^ n = (b div 16) mod 16 ^ n" .
  from hexdigit_inj [OF lo] have 2: "a mod 16 = b mod 16"
    by simp
  have "a mod (16 * 16 ^ n) = 16 * ((a div 16) mod 16 ^ n) + a mod 16"
    by (rule mod_mult2_eq)
  moreover have "b mod (16 * 16 ^ n) = 16 * ((b div 16) mod 16 ^ n) + b mod 16"
    by (rule mod_mult2_eq)
  ultimately show ?case
    using 1 2 by simp
qed

lemma Sha1Hash_toString_inj:
  assumes "Sha1Hash_toString x = Sha1Hash_toString y"
  shows "x = y"
proof -
  from assms have "unat x mod 16 ^ 40 = unat y mod 16 ^ 40"
    unfolding Sha1Hash_toString_def by (rule hex_digits_inj)
  moreover have "unat x < 16 ^ 40" "unat y < 16 ^ 40"
    using unsigned_less [of x] unsigned_less [of y] by simp_all
  ultimately have "unat x = unat y"
    by simp
  then show ?thesis
    by (rule word_unat_eq_iff [THEN iffD2])
qed

text \<open>
  C7. The name of a shader key is a function of the key alone: it is the stage tag
  followed by forty hexadecimal digits that render the digest; keys that compare equal
  have the same name, and keys whose digests differ have different names, whatever
  their stages and whatever tags the stages have.
\<close>

theorem D3D11ShaderKey_GetName_digest:
  "D3D11ShaderKey_GetName tag a = tag (m_type a) @ Sha1Hash_toString (m_hash a)
   \<and> length (Sha1Hash_toString (m_hash a)) = 40
   \<and> set (Sha1Hash_toString (m_hash a)) \<subseteq> set ''0123456789abcdef''
   \<and> (D3D11ShaderKey_eq a b \<longrightarrow>
        D3D11ShaderKey_GetName tag a = D3D11ShaderKey_GetName tag b)
   \<and> (m_hash a \<noteq> m_hash b \<longrightarrow>
        D3D11ShaderKey_GetName tag a \<noteq> D3D11ShaderKey_GetName tag b)"
proof -
  have len: "length (Sha1Hash_toString h) = 40" for h
    by (simp add: Sha1Hash_toString_def length_hex_digits)
  have alphabet: "set (Sha1Hash_toString h) \<subseteq> set ''0123456789abcdef''" for h
    unfolding Sha1Hash_toString_def by (rule set_hex_digits)
  have same: "D3D11ShaderKey_GetName tag a = D3D11ShaderKey_GetName tag b"
    if "D3D11ShaderKey_eq a b"
    using that by (simp add: D3D11ShaderKey_eq_def D3D11ShaderKey_GetName_def)
  have differ: "D3D11ShaderKey_GetName tag a \<noteq> D3D11ShaderKey_GetName tag b"
    if neq: "m_hash a \<noteq> m_hash b"
  proof
    assume "D3D11ShaderKey_GetName tag a = D3D11ShaderKey_GetName tag b"
    then have "tag (m_type a) @ Sha1Hash_toString (m_hash a)
        = tag (m_type b) @ Sha1Hash_toString (m_hash b)"
      by (simp add: D3D11ShaderKey_GetName_def)
    moreover have "length (Sha1Hash_toString (m_hash a)) = length (Sha1Hash_toString (m_hash b))"
      by (simp add: len)
    ultimately have "Sha1Hash_toString (m_hash a) = Sha1Hash_toString (m_hash b)"
      by simp
    then have "m_hash a = m_hash b"
      by (rule Sha1Hash_toString_inj)
    with neq show False
      by contradiction
  qed
  show ?thesis
    using len [of "m_hash a"] alphabet [of "m_hash a"] same differ
    by (simp add: D3D11ShaderKey_GetName_def)
qed

theorem D3D11ShaderKey_GetName_digest_witness:
  "D3D11ShaderKey_eq \<lparr>m_type = PixelShader, m_hash = 1\<rparr> \<lparr>m_type = PixelShader, m_hash = 2 - 1\<rparr>
   \<and> D3D11ShaderKey_GetName (\<lambda>t. ''S_'') \<lparr>m_type = PixelShader, m_hash = 1\<rparr>
     = D3D11ShaderKey_GetName (\<lambda>t. ''S_'') \<lparr>m_type = PixelShader, m_hash = 2 - 1\<rparr>
   \<and> m_hash \<lparr>m_type = PixelShader, m_hash = 1\<rparr> \<noteq> m_hash \<lparr>m_type = VertexShader, m_hash = 2\<rparr>
   \<and> D3D11ShaderKey_GetName (\<lambda>t. ''S_'') \<lparr>m_type = PixelShader, m_hash = 1\<rparr>
     \<noteq> D3D11ShaderKey_GetName (\<lambda>t. ''S_'') \<lparr>m_type = VertexShader, m_hash = 2\<rparr>"
proof -
  have e: "D3D11ShaderKey_eq \<lparr>m_type = PixelShader, m_hash = 1\<rparr>
      \<lparr>m_type = PixelShader, m_hash = 2 - 1\<rparr>"
    by (simp add: D3D11ShaderKey_eq_def)
  have d: "m_hash \<lparr>m_type = PixelShader, m_hash = 1\<rparr>
      \<noteq> m_hash \<lparr>m_type = VertexShader, m_hash = 2\<rparr>"
    by simp
  note same = D3D11ShaderKey_GetName_digest
    [of "\<lambda>t. ''S_''" "\<lparr>m_type = PixelShader, m_hash = 1\<rparr>"
        "\<lparr>m_type = PixelShader, m_hash = 2 - 1\<rparr>",
     THEN conjunct2, THEN conjunct2, THEN conjunct2, THEN conjunct1, rule_format, OF e]
  note differ = D3D11ShaderKey_GetName_digest
    [of "\<lambda>t. ''S_''" "\<lparr>m_type = PixelShader, m_hash = 1\<rparr>"
        "\<lparr>m_type = VertexShader, m_hash = 2\<rparr>",
     THEN conjunct2, THEN conjunct2, THEN conjunct2, THEN conjunct2, rule_format, OF d]
  from e d same differ show ?thesis
    by (intro conjI)
qed


section \<open>Properties of the interface query\<close>

text \<open>
  C10. A query for \<open>IUnknown\<close>, which both branches of \<^verbatim>\<open>QueryInterface\<close> list, is
  answered by the first branch: for every instantiation of the template the result is
  the front object itself, with success and nothing logged, and never the D3D10
  adapter.
\<close>

theorem QueryInterface_IUnknown:
  "QueryInterface D3D11Iface D3D10Iface IUnknown
     = \<lparr>ppvObject = this, hresult = S_OK, logged = []\<rparr>
   \<and> ppvObject (QueryInterface D3D11Iface D3D10Iface IUnknown) \<noteq> m_d3d10"
  by (simp add: QueryInterface_def Let_def)

text \<open>
  C3. On a front object of any of the six aliases, a query for \<open>IUnknown\<close>,
  \<open>ID3D11DeviceChild\<close> or the alias's D3D11 interface returns the front object itself
  with \<open>S_OK\<close>; a query for \<open>ID3D10DeviceChild\<close> or the alias's D3D10 interface
  returns the embedded D3D10 adapter with \<open>S_OK\<close>; a query for any other identity
  leaves the null pointer, returns \<open>E_NOINTERFACE\<close> and logs one warning.
\<close>

theorem QueryInterface_of_cases:
  "(riid \<in> {IUnknown, ID3D11DeviceChild, D3D11Interface a} \<longrightarrow>
      QueryInterface_of a riid = \<lparr>ppvObject = this, hresult = S_OK, logged = []\<rparr>)
   \<and> (riid \<in> {ID3D10DeviceChild, D3D10Interface a} \<longrightarrow>
      QueryInterface_of a riid = \<lparr>ppvObject = m_d3d10, hresult = S_OK, logged = []\<rparr>)
   \<and> (riid \<notin> {IUnknown, ID3D11DeviceChild, D3D11Interface a,
                ID3D10DeviceChild, D3D10Interface a} \<longrightarrow>
      QueryInterface_of a riid =
        \<lparr>ppvObject = nullptr, hresult = E_NOINTERFACE,
         logged = [''D3D11Shader::QueryInterface: Unknown interface query'']\<rparr>)"
  by (cases a) (auto simp add: QueryInterface_of_def QueryInterface_def Let_def)

theorem QueryInterface_of_cases_witness:
  "QueryInterface_of D3D11PixelShader ID3D11PixelShader
     = \<lparr>ppvObject = this, hresult = S_OK, logged = []\<rparr>
   \<and> QueryInterface_of D3D11PixelShader ID3D10PixelShader
     = \<lparr>ppvObject = m_d3d10, hresult = S_OK, logged = []\<rparr>
   \<and> QueryInterface_of D3D11HullShader ID3D10DeviceChild
     = \<lparr>ppvObject = m_d3d10, hresult = S_OK, logged = []\<rparr>
   \<and> QueryInterface_of D3D11HullShader ID3D10PixelShader
     = \<lparr>ppvObject = nullptr, hresult = E_NOINTERFACE,
        logged = [''D3D11Shader::QueryInterface: Unknown interface query'']\<rparr>
   \<and> QueryInterface_of D3D11PixelShader (IID_Other 7)
     = \<lparr>ppvObject = nullptr, hresult = E_NOINTERFACE,
        logged = [''D3D11Shader::QueryInterface: Unknown interface query'']\<rparr>"
  using QueryInterface_of_cases [of ID3D11PixelShader D3D11PixelShader]
    QueryInterface_of_cases [of ID3D10PixelShader D3D11PixelShader]
    QueryInterface_of_cases [of ID3D10DeviceChild D3D11HullShader]
    QueryInterface_of_cases [of ID3D10PixelShader D3D11HullShader]
    QueryInterface_of_cases [of "IID_Other 7" D3D11PixelShader]
  by simp

text \<open>
  C9. The header declares exactly six aliases of the template, for the vertex, hull,
  domain, geometry, pixel and compute stages. The vertex, geometry and pixel aliases
  take the stage's own D3D10 interface as second argument; the hull, domain and
  compute aliases take \<open>ID3D10DeviceChild\<close>.
\<close>

theorem shader_aliases_bindings:
  "set shader_aliases = UNIV \<and> distinct shader_aliases \<and> length shader_aliases = 6
   \<and> map D3D11Interface shader_aliases =
       [ID3D11VertexShader, ID3D11HullShader, ID3D11DomainShader,
        ID3D11GeometryShader, ID3D11PixelShader, ID3D11ComputeShader]
   \<and> map D3D10Interface shader_aliases =
       [ID3D10VertexShader, ID3D10DeviceChild, ID3D10DeviceChild,
        ID3D10GeometryShader, ID3D10PixelShader, ID3D10DeviceChild]
   \<and> {a. D3D10Interface a = ID3D10DeviceChild} =
       {D3D11HullShader, D3D11DomainShader, D3D11ComputeShader}"
proof -
  have univ: "set shader_aliases = UNIV"
  proof
    show "UNIV \<subseteq> set shader_aliases"
    proof
      fix a :: ShaderAlias
      show "a \<in> set shader_aliases"
        by (cases a) (simp_all add: shader_aliases_def)
    qed
  qed simp
  have generic: "{a. D3D10Interface a = ID3D10DeviceChild} =
      {D3D11HullShader, D3D11DomainShader, D3D11ComputeShader}"
  proof (rule set_eqI)
    fix a
    show "a \<in> {a. D3D10Interface a = ID3D10DeviceChild} \<longleftrightarrow>
      a \<in> {D3D11HullShader, D3D11DomainShader, D3D11ComputeShader}"
      by (cases a) simp_all
  qed
  show ?thesis
    using univ generic by (simp add: shader_aliases_def)
qed


section \<open>Properties of the common shader object\<close>




section \<open>Properties of the shader module set\<close>

subsection \<open>The invariants hold in every reachable state\<close>

lemma mutex_inv_init: "mutex_inv (init w)"
  by (simp add: mutex_inv_def init_def)

lemma mutex_inv_step:
  assumes "mutex_inv s"
  shows "mutex_inv (step E a s)"
proof -
  obtain t r where a: "a = (t, r)" by (cases a)
  have "in_section (threads (step E (t, r) s) u) \<longleftrightarrow> m_mutex (step E (t, r) s) = Some u" for u
  proof -
    from assms have ht: "in_section (threads s t) \<longleftrightarrow> m_mutex s = Some t"
      and hu: "in_section (threads s u) \<longleftrightarrow> m_mutex s = Some u"
      by (simp_all add: mutex_inv_def)
    show ?thesis
      using ht hu
      by (cases "threads s t")
        (auto simp add: step_def split: option.splits sum.splits prod.splits)
  qed
  then show ?thesis
    by (simp add: mutex_inv_def a)
qed

lemma local_ok_outside:
  "\<not> in_section c \<Longrightarrow> local_ok E M c \<Longrightarrow> local_ok E M' c"
  by (cases c) simp_all

lemma D3D11CommonShader_new_Inr:
  "D3D11CommonShader_new E w d k i b = (Inr m, w') \<Longrightarrow> m_shader m \<noteq> None"
  by (auto simp add: D3D11CommonShader_new_def split: prod.splits option.splits)

lemma modules_inv_init: "modules_inv E (init w)"
  by (simp add: modules_inv_def init_def)

lemma modules_inv_step:
  assumes m: "mutex_inv s" and i: "modules_inv E s"
  shows "modules_inv E (step E a s)"
proof -
  obtain t r where a: "a = (t, r)" by (cases a)
  from i have stored: "m_modules s k = Some m \<Longrightarrow> m_shader m \<noteq> None" for k m
    by (simp add: modules_inv_def)
  from i have ok: "local_ok E (m_modules s) (threads s u)" for u
    by (simp add: modules_inv_def)
  from m have mu: "in_section (threads s u) \<longleftrightarrow> m_mutex s = Some u" for u
    by (simp add: mutex_inv_def)
  have 1: "local_ok E (m_modules (step E (t, r) s)) (threads (step E (t, r) s) u)" for u
  proof (cases "u = t")
    case True
    show ?thesis
      using ok [of t] True
      by (cases "threads s t")
        (auto simp add: step_def split: option.splits sum.splits prod.splits
          dest: D3D11CommonShader_new_Inr)
  next
    case False
    show ?thesis
    proof (cases "in_section (threads s t)")
      case True
      with mu [of t] mu [of u] False have "\<not> in_section (threads s u)"
        by simp
      moreover have "threads (step E (t, r) s) u = threads s u"
        using False
        by (cases "threads s t")
          (auto simp add: step_def split: option.splits sum.splits prod.splits)
      ultimately show ?thesis
        using ok [of u] by (simp add: local_ok_outside)
    next
      case notin: False
      then have "m_modules (step E (t, r) s) = m_modules s"
        "threads (step E (t, r) s) u = threads s u"
        using False
        by (cases "threads s t"; simp add: step_def)+
      then show ?thesis
        using ok [of u] by simp
    qed
  qed
  have 2: "m_shader m' \<noteq> None" if "m_modules (step E (t, r) s) k' = Some m'" for k' m'
    using that ok [of t] stored [of k' m']
    by (cases "threads s t")
      (auto simp add: step_def split: option.splits sum.splits prod.splits if_splits)
  show ?thesis
    unfolding modules_inv_def a using 1 2 by blast
qed

lemma trace_inv_init: "trace_inv E (init w)"
  by (simp add: trace_inv_def init_def successes_def failures_def failed_returns_def
      compilations_def returns_def holder_state_def)

lemma trace_inv_step:
  assumes m: "mutex_inv s" and i: "modules_inv E s" and tr: "trace_inv E s"
  shows "trace_inv E (step E a s)"
proof -
  obtain t r where a: "a = (t, r)" by (cases a)
  from i have ok: "local_ok E (m_modules s) (threads s t)"
    by (simp add: modules_inv_def)
  from m have mt: "in_section (threads s t) \<longleftrightarrow> m_mutex s = Some t"
    by (simp add: mutex_inv_def)
  from tr have s1: "successes E k (trace s) =
        (if m_modules s k \<noteq> None \<or> building (holder_state s) k then 1 else 0)" for k
    by (simp add: trace_inv_def)
  from tr have f1: "failures E k (trace s) =
        failed_returns E k (trace s) + (if failing (holder_state s) k then 1 else 0)" for k
    by (simp add: trace_inv_def)
  from tr have r1: "Returned u q (Inr x) \<in> set (trace s) \<Longrightarrow> m_modules s (key_of E q) = Some x" for u q x
    by (simp add: trace_inv_def)
  have s2: "successes E k (trace (step E (t, r) s)) =
        (if m_modules (step E (t, r) s) k \<noteq> None \<or> building (holder_state (step E (t, r) s)) k
         then 1 else 0)" for k
    using s1 [of k] ok mt
    by (cases "threads s t")
      (auto simp add: step_def holder_state_def successes_def compilations_def
        split: option.splits sum.splits prod.splits)
  have f2: "failures E k (trace (step E (t, r) s)) =
        failed_returns E k (trace (step E (t, r) s))
          + (if failing (holder_state (step E (t, r) s)) k then 1 else 0)" for k
    using f1 [of k] ok mt
    by (cases "threads s t")
      (auto simp add: step_def holder_state_def failures_def failed_returns_def
        compilations_def returns_def
        split: option.splits sum.splits prod.splits)
  have r2: "m_modules (step E (t, r) s) (key_of E q) = Some x"
    if "Returned u q (Inr x) \<in> set (trace (step E (t, r) s))" for u q x
    using that r1 [of u q x] ok mt
    by (cases "threads s t")
      (auto simp add: step_def split: option.splits sum.splits prod.splits if_splits)
  show ?thesis
    unfolding trace_inv_def a using s2 f2 r2 by blast
qed

lemma cache_inv_init: "cache_inv E (init w)"
  by (simp add: cache_inv_def mutex_inv_init modules_inv_init trace_inv_init)

lemma cache_inv_step: "cache_inv E s \<Longrightarrow> cache_inv E (step E a s)"
  by (simp add: cache_inv_def mutex_inv_step modules_inv_step trace_inv_step)

lemma cache_inv_fold: "cache_inv E s \<Longrightarrow> cache_inv E (fold (step E) schedule s)"
  by (induction schedule arbitrary: s) (simp_all add: cache_inv_step)

lemma cache_inv_run: "cache_inv E (run E schedule (init w))"
  unfolding run_def by (rule cache_inv_fold) (rule cache_inv_init)

lemma cache_invD:
  assumes "cache_inv E s"
  shows "in_section (threads s t) \<longleftrightarrow> m_mutex s = Some t"
    and "local_ok E (m_modules s) (threads s t)"
    and "m_modules s k = Some m \<Longrightarrow> m_shader m \<noteq> None"
    and "successes E k (trace s) =
          (if m_modules s k \<noteq> None \<or> building (holder_state s) k then 1 else 0)"
    and "failures E k (trace s) =
          failed_returns E k (trace s) + (if failing (holder_state s) k then 1 else 0)"
    and "Returned t r (Inr m) \<in> set (trace s) \<Longrightarrow> m_modules s (key_of E r) = Some m"
  using assms
  unfolding cache_inv_def mutex_inv_def modules_inv_def trace_inv_def
  by blast+

lemma length_compilations:
  "length (compilations E k tr) = successes E k tr + failures E k tr"
  unfolding successes_def failures_def
  by (rule sum_length_filter_compl [symmetric])

lemma only_success:
  assumes "successes E k tr = 1" and "failures E k tr = 0"
  shows "compilations E k tr = [True]"
proof -
  from assms have "length (compilations E k tr) = 1"
    by (simp add: length_compilations)
  then obtain b where b: "compilations E k tr = [b]"
    by (cases "compilations E k tr") simp_all
  with assms(1) have "b"
    by (simp add: successes_def split: if_splits)
  with b show ?thesis
    by simp
qed

text \<open>An entry of the table is never removed nor replaced.\<close>

lemma stored_module_persists:
  assumes "cache_inv E s" and "m_modules s k = Some m"
  shows "m_modules (run E schedule s) k = Some m"
  using assms
proof (induction schedule arbitrary: s)
  case Nil
  then show ?case
    by (simp add: run_def)
next
  case (Cons a schedule)
  obtain t r where a: "a = (t, r)" by (cases a)
  from Cons.prems(1) have "local_ok E (m_modules s) (threads s t)"
    by (rule cache_invD(2))
  with Cons.prems(2) have "m_modules (step E a s) k = Some m"
    unfolding a
    by (cases "threads s t")
      (auto simp add: step_def split: option.splits sum.splits prod.splits)
  moreover from Cons.prems(1) have "cache_inv E (step E a s)"
    by (rule cache_inv_step)
  ultimately have "m_modules (run E schedule (step E a s)) k = Some m"
    by (rule Cons.IH [rotated])
  then show ?case
    by (simp add: run_def)
qed

text \<open>
  A call run alone is the thread's steps taken in a row: five steps when the key is
  present, six when the constructor fails, seven when it succeeds.
\<close>

lemma GetShaderModule_run:
  assumes free: "m_mutex s = None" and idle: "threads s t = Idle"
  shows "\<exists>n res. n \<le> 7 \<and> GetShaderModule E t r s = Some (res, run E (replicate n (t, r)) s)"
proof (cases "m_modules s (key_of E r)")
  case (Some m)
  from idle have idle_upd: "(threads s)(t := Idle) = threads s"
    by (rule fun_upd_idem)
  have "GetShaderModule E t r s = Some (Inr m, run E (replicate 5 (t, r)) s)"
    using free idle Some
    by (simp add: GetShaderModule_def run_def step_def key_of_def eval_nat_numeral idle_upd)
  then show ?thesis
    by (intro exI [of _ 5] exI [of _ "Inr m"]) simp
next
  case None
  from idle have idle_upd: "(threads s)(t := Idle) = threads s"
    by (rule fun_upd_idem)
  obtain res w' where c: "D3D11CommonShader_new E (world s) (pDevice r) (key_of E r)
      (pDxbcModuleInfo r) (pShaderBytecode r) = (res, w')"
    by (cases "D3D11CommonShader_new E (world s) (pDevice r) (key_of E r)
      (pDxbcModuleInfo r) (pShaderBytecode r)")
  show ?thesis
  proof (cases res)
    case (Inl e)
    have "GetShaderModule E t r s = Some (Inl e, run E (replicate 6 (t, r)) s)"
      using free idle None c Inl
      by (simp add: GetShaderModule_def run_def step_def key_of_def eval_nat_numeral idle_upd)
    then show ?thesis
      by (intro exI [of _ 6] exI [of _ "Inl e"]) simp
  next
    case (Inr m)
    have "GetShaderModule E t r s = Some (Inr m, run E (replicate 7 (t, r)) s)"
      using free idle None c Inr
      by (simp add: GetShaderModule_def run_def step_def key_of_def eval_nat_numeral idle_upd)
    then show ?thesis
      by (intro exI [of _ 7] exI [of _ "Inr m"]) simp
  qed
qed

subsection \<open>Sample runs\<close>

lemma key_of_request0: "key_of flaky request0 = key0"
  by (simp add: key_of_def D3D11ShaderKey_new_def flaky_def request0_def key0_def)

lemma new_flaky_0:
  "D3D11CommonShader_new flaky 0 d key0 i b = (Inl CompilationFailure, Suc 0)"
  by (simp add: D3D11CommonShader_new_def flaky_def)

lemma new_flaky_Suc:
  "D3D11CommonShader_new flaky (Suc n) d key0 i b = (Inr (module0 (Suc n)), Suc (Suc n))"
  by (simp add: D3D11CommonShader_new_def flaky_def module0_def)

lemmas eval_run = run_def step_def init_def schedule1_def key_of_request0
  new_flaky_0 new_flaky_Suc

lemma retry_trace:
  "trace (run flaky (replicate 13 (0, request0)) (init 0)) =
     [Compiled request0 False, Returned 0 request0 (Inl CompilationFailure),
      Compiled request0 True, Returned 0 request0 (Inr (module0 1))]"
  by (simp add: run_def step_def init_def eval_nat_numeral key_of_request0
      new_flaky_0 new_flaky_Suc)

subsection \<open>The claims\<close>



text \<open>
  C1 (as amended). In every state that the calls of any number of threads, interleaved
  in any way, can reach from the empty cache, and for every key: the compiler has
  succeeded at most once for the key; as soon as a call whose request has the key has
  returned a record, the compiler has succeeded exactly once for the key, and it has
  been invoked exactly once for the key if it has not failed for it; every returned
  record carries a program handle, and any two calls with the same stage and the same
  bytecode that returned a record returned the same program handle.
\<close>

theorem compiled_once_per_key:
  "let s = run E schedule (init w) in
     successes E k (trace s) \<le> 1
     \<and> (\<forall>t r m. Returned t r (Inr m) \<in> set (trace s) \<and> key_of E r = k \<longrightarrow>
          successes E k (trace s) = 1 \<and> fst (GetShader m) \<noteq> None)
     \<and> (\<forall>t r m t' r' m'.
          Returned t r (Inr m) \<in> set (trace s) \<and> Returned t' r' (Inr m') \<in> set (trace s)
          \<and> ProgramType r = ProgramType r' \<and> pShaderBytecode r = pShaderBytecode r' \<longrightarrow>
          fst (GetShader m) = fst (GetShader m'))
     \<and> (\<forall>t r m. Returned t r (Inr m) \<in> set (trace s) \<and> key_of E r = k
          \<and> failures E k (trace s) = 0 \<longrightarrow>
          compilations E k (trace s) = [True])"
proof -
  define s where "s = run E schedule (init w)"
  have "cache_inv E s"
    unfolding s_def by (rule cache_inv_run)
  note I = cache_invD [OF this]
  have once: "successes E k (trace s) \<le> 1"
    by (simp add: I(4))
  have stored: "m_modules s (key_of E r) = Some m"
    if "Returned t r (Inr m) \<in> set (trace s)" for t r m
    using that by (rule I(6))
  have one: "successes E k (trace s) = 1 \<and> fst (GetShader m) \<noteq> None"
    if "Returned t r (Inr m) \<in> set (trace s)" and "key_of E r = k" for t r m
  proof -
    from stored [OF that(1)] that(2) have "m_modules s k = Some m"
      by simp
    then show ?thesis
      by (simp add: I(3,4) GetShader_def)
  qed
  have same: "fst (GetShader m) = fst (GetShader m')"
    if "Returned t r (Inr m) \<in> set (trace s)" and "Returned t' r' (Inr m') \<in> set (trace s)"
      and "ProgramType r = ProgramType r'" and "pShaderBytecode r = pShaderBytecode r'"
    for t r m t' r' m'
  proof -
    from that(3,4) have "key_of E r = key_of E r'"
      by (simp add: key_of_def)
    with stored [OF that(1)] stored [OF that(2)] show ?thesis
      by simp
  qed
  have exact: "compilations E k (trace s) = [True]"
    if "Returned t r (Inr m) \<in> set (trace s)" and "key_of E r = k"
      and "failures E k (trace s) = 0" for t r m
    using one [OF that(1,2)] that(3) by (simp add: only_success)
  show ?thesis
    unfolding Let_def s_def [symmetric]
    using once one same exact by blast
qed

text \<open>
  The claim without the amendment does not hold: with a compiler that fails once, two
  calls in sequence with the same stage and bytecode make the compiler run twice for
  the same key. The first call returns the failure and the second a record.
\<close>

theorem compiled_once_per_key_counterexample:
  "compilations flaky key0 (trace (run flaky (replicate 13 (0, request0)) (init 0)))
     = [False, True]
   \<and> returns flaky key0 (trace (run flaky (replicate 13 (0, request0)) (init 0)))
     = [Inl CompilationFailure, Inr (module0 1)]"
  by (simp add: retry_trace compilations_def returns_def key_of_request0)

theorem compiled_once_per_key_witness:
  "Returned 0 request0 (Inr (module0 1)) \<in> set (trace (run flaky schedule1 (init 1)))
   \<and> Returned 1 request0 (Inr (module0 1)) \<in> set (trace (run flaky schedule1 (init 1)))
   \<and> failures flaky key0 (trace (run flaky schedule1 (init 1))) = 0
   \<and> successes flaky key0 (trace (run flaky schedule1 (init 1))) = 1
   \<and> compilations flaky key0 (trace (run flaky schedule1 (init 1))) = [True]
   \<and> fst (GetShader (module0 1)) \<noteq> None"
proof -
  have tr: "trace (run flaky schedule1 (init 1)) =
      [Compiled request0 True, Returned 0 request0 (Inr (module0 1)),
       Returned 1 request0 (Inr (module0 1))]"
    by (simp add: eval_run)
  have r0: "Returned 0 request0 (Inr (module0 1)) \<in> set (trace (run flaky schedule1 (init 1)))"
    and r1: "Returned 1 request0 (Inr (module0 1)) \<in> set (trace (run flaky schedule1 (init 1)))"
    unfolding tr by simp_all
  have f: "failures flaky key0 (trace (run flaky schedule1 (init 1))) = 0"
    unfolding tr by (simp add: failures_def compilations_def key_of_request0)
  note inst = compiled_once_per_key [of flaky schedule1 1 key0, unfolded Let_def]
  from inst r0 key_of_request0
  have one: "successes flaky key0 (trace (run flaky schedule1 (init 1))) = 1
      \<and> fst (GetShader (module0 1)) \<noteq> None"
    by blast
  from inst r0 key_of_request0 f
  have "compilations flaky key0 (trace (run flaky schedule1 (init 1))) = [True]"
    by blast
  with r0 r1 f one show ?thesis
    by blast
qed



end
